theory Spec2Isabelle
  imports Complex_Main "HOL-Library.AList"
begin

section \<open>JavaScript values\<close>

text \<open>
  The converter of \<^verbatim>\<open>src/traces/scattermapbox/convert.js\<close> works on dynamically typed
  values. A number is a finite value, \<^verbatim>\<open>NaN\<close> or one of the two infinities; finite
  doubles are embedded in the reals (negative zero is identified with zero and rounding
  is not part of this development). The other primitive values the trace attributes can
  hold are \<^verbatim>\<open>undefined\<close>, \<^verbatim>\<open>null\<close>, booleans and strings.
\<close>

datatype jsnum = Finite real | NaN | PosInfinity | NegInfinity

datatype jsval = Undefined | Null | Bool bool | Num jsnum | Str string

text \<open>An \<^verbatim>\<open>arrayOk\<close> attribute holds one value or an array of values;
  \<^verbatim>\<open>Array.isArray\<close> tells the two apart.\<close>

datatype attr = Scalar jsval | Array "jsval list"

fun isArray :: "attr \<Rightarrow> bool" where
  "isArray (Array _) = True"
| "isArray (Scalar _) = False"

text \<open>\<^verbatim>\<open>xs[i]\<close>: a read past the end of an array gives \<^verbatim>\<open>undefined\<close>.\<close>

definition js_nth :: "jsval list \<Rightarrow> nat \<Rightarrow> jsval" where
  "js_nth xs i = (if i < length xs then xs ! i else Undefined)"

text \<open>Truthiness, as \<^verbatim>\<open>!v\<close> and \<^verbatim>\<open>if(v)\<close> see it.\<close>

fun truthy :: "jsval \<Rightarrow> bool" where
  "truthy Undefined = False"
| "truthy Null = False"
| "truthy (Bool b) = b"
| "truthy (Num (Finite r)) = (r \<noteq> 0)"
| "truthy (Num NaN) = False"
| "truthy (Num _) = True"
| "truthy (Str s) = (s \<noteq> [])"

text \<open>The operators \<^verbatim>\<open>*\<close> and \<^verbatim>\<open>/\<close> on numbers.\<close>

fun js_times :: "jsnum \<Rightarrow> jsnum \<Rightarrow> jsnum" where
  "js_times (Finite a) (Finite b) = Finite (a * b)"
| "js_times NaN _ = NaN"
| "js_times _ NaN = NaN"
| "js_times (Finite a) PosInfinity =
     (if a = 0 then NaN else if 0 < a then PosInfinity else NegInfinity)"
| "js_times (Finite a) NegInfinity =
     (if a = 0 then NaN else if 0 < a then NegInfinity else PosInfinity)"
| "js_times PosInfinity (Finite b) =
     (if b = 0 then NaN else if 0 < b then PosInfinity else NegInfinity)"
| "js_times NegInfinity (Finite b) =
     (if b = 0 then NaN else if 0 < b then NegInfinity else PosInfinity)"
| "js_times PosInfinity PosInfinity = PosInfinity"
| "js_times PosInfinity NegInfinity = NegInfinity"
| "js_times NegInfinity PosInfinity = NegInfinity"
| "js_times NegInfinity NegInfinity = PosInfinity"

fun js_divide :: "jsnum \<Rightarrow> jsnum \<Rightarrow> jsnum" where
  "js_divide (Finite a) (Finite b) =
     (if b \<noteq> 0 then Finite (a / b)
      else if a = 0 then NaN else if 0 < a then PosInfinity else NegInfinity)"
| "js_divide NaN _ = NaN"
| "js_divide _ NaN = NaN"
| "js_divide (Finite a) _ = Finite 0"
| "js_divide PosInfinity (Finite b) = (if 0 \<le> b then PosInfinity else NegInfinity)"
| "js_divide NegInfinity (Finite b) = (if 0 \<le> b then NegInfinity else PosInfinity)"
| "js_divide PosInfinity PosInfinity = NaN"
| "js_divide PosInfinity NegInfinity = NaN"
| "js_divide NegInfinity PosInfinity = NaN"
| "js_divide NegInfinity NegInfinity = NaN"

section \<open>The trace\<close>

text \<open>
  The input of \<^verbatim>\<open>convert\<close> is a trace after the defaults step: \<^verbatim>\<open>lon\<close> and
  \<^verbatim>\<open>lat\<close> are arrays, \<^verbatim>\<open>line\<close> and \<^verbatim>\<open>marker\<close> are objects.
\<close>

record line_attrs =
  width :: jsval
  line_color :: jsval

record marker_attrs =
  color :: attr
  marker_size :: attr
  marker_opacity :: jsval
  colorscale :: "(jsval \<times> jsval) list"
  cmin :: jsval
  cmax :: jsval

record trace =
  visible :: jsval
  mode :: jsval
  fill :: jsval
  fillcolor :: jsval
  opacity :: jsval
  connectgaps :: jsval
  lon :: "jsval list"
  lat :: "jsval list"
  line :: line_attrs
  marker :: marker_attrs

section \<open>The layers\<close>

text \<open>
  A plain object is the list of its own properties in creation order; assigning to an
  existing key keeps the key's place (\<^const>\<open>AList.update\<close>).
\<close>

datatype propval = Absent | Index nat | Inherited string

datatype geojson =
    Point (coordinates: "jsnum list")
  | Polygon "jsnum list list list"
  | MultiLineString "jsnum list list list"
  | FeatureCollection (features: "feature list")
and feature =
    Feature (geometry: geojson) (properties: "(string \<times> propval) list")

datatype paintval =
    Value jsval
  | StopSpec (property: string) (stops: "(nat \<times> jsval) list")

type_synonym paint = "(string \<times> paintval) list"

record layout =
  visibility :: string

record container =
  geojson :: geojson
  layout :: layout
  paint :: paint

record layers =
  fill :: container
  lines :: container
  markers :: container

section \<open>The collaborators\<close>

text \<open>
  The modules \<^verbatim>\<open>convert.js\<close> requires are not part of the converter. They are
  parameters of the model: \<^verbatim>\<open>fast-isnumeric\<close>, the sub-type tests, the colour-scale
  and bubble-size function makers and \<^verbatim>\<open>Lib.extendFlat\<close>. So are the two conversions
  between strings and numbers of the language itself, which the converter reaches
  through unary plus and through property keys.
\<close>

record env =
  isNumeric :: "jsval \<Rightarrow> bool"
  hasLines :: "trace \<Rightarrow> bool"
  hasMarkers :: "trace \<Rightarrow> bool"
  hasColorscale :: "trace \<Rightarrow> string \<Rightarrow> bool"
  makeColorScaleFn :: "(jsval \<times> jsval) list \<Rightarrow> jsval \<Rightarrow> jsval \<Rightarrow> jsval \<Rightarrow> jsval"
  makeBubbleSizeFn :: "trace \<Rightarrow> jsval \<Rightarrow> jsval"
  extendFlat :: "paint \<Rightarrow> paint \<Rightarrow> paint"
  stringToNumber :: "string \<Rightarrow> jsnum"
  numberToString :: "jsnum \<Rightarrow> string"

text \<open>\<^verbatim>\<open>+v\<close> and \<^verbatim>\<open>String(v)\<close>, the latter also being the property key of \<^verbatim>\<open>obj[v]\<close>.\<close>

fun toNumber :: "env \<Rightarrow> jsval \<Rightarrow> jsnum" where
  "toNumber e Undefined = NaN"
| "toNumber e Null = Finite 0"
| "toNumber e (Bool b) = (if b then Finite 1 else Finite 0)"
| "toNumber e (Num n) = n"
| "toNumber e (Str s) = stringToNumber e s"

fun toString :: "env \<Rightarrow> jsval \<Rightarrow> string" where
  "toString e Undefined = ''undefined''"
| "toString e Null = ''null''"
| "toString e (Bool b) = (if b then ''true'' else ''false'')"
| "toString e (Num n) = numberToString e n"
| "toString e (Str s) = s"

section \<open>Coordinates\<close>

definition checkLonLat :: "env \<Rightarrow> jsval \<Rightarrow> jsval \<Rightarrow> bool" where
  "checkLonLat e lon' lat' = (isNumeric e lon' \<and> isNumeric e lat')"

definition getCoordLen :: "trace \<Rightarrow> nat" where
  "getCoordLen t = length (lon t)"

text \<open>One pass of the loop of \<^verbatim>\<open>getCoords\<close>, on the pair \<open>(coords, lineString)\<close>.\<close>

definition getCoords_step ::
  "env \<Rightarrow> trace \<Rightarrow> nat \<Rightarrow> jsnum list list list \<times> jsnum list list
     \<Rightarrow> jsnum list list list \<times> jsnum list list" where
  "getCoords_step e t i st =
     (let coords = fst st; lineString = snd st;
          lon' = js_nth (lon t) i; lat' = js_nth (lat t) i
      in if checkLonLat e lon' lat'
         then (coords, lineString @ [[toNumber e lon', toNumber e lat']])
         else if \<not> truthy (connectgaps t) \<and> length lineString > 0
         then (coords @ [lineString], [])
         else (coords, lineString))"

definition getCoords :: "env \<Rightarrow> trace \<Rightarrow> jsnum list list list" where
  "getCoords e t =
     (let len = getCoordLen t;
          st = fold (getCoords_step e t) [0..<len] ([], [])
      in fst st @ [snd st])"

section \<open>Blank layers and geometry envelopes\<close>

definition makeBlankGeoJSON :: geojson where
  "makeBlankGeoJSON = Point []"

definition initContainer :: container where
  "initContainer =
     \<lparr>geojson = makeBlankGeoJSON, layout = \<lparr>visibility = ''none''\<rparr>, paint = []\<rparr>"

definition makeFillGeoJSON :: "trace \<Rightarrow> jsnum list list list \<Rightarrow> geojson" where
  "makeFillGeoJSON t coords = Polygon coords"

definition makeLineGeoJSON :: "trace \<Rightarrow> jsnum list list list \<Rightarrow> geojson" where
  "makeLineGeoJSON t coords = MultiLineString coords"

section \<open>The value-to-index hash\<close>

definition COLOR_PROP :: string where
  "COLOR_PROP = ''circle-color''"

definition SIZE_PROP :: string where
  "SIZE_PROP = ''circle-size''"

text \<open>
  Each of \<^verbatim>\<open>hash[COLOR_PROP]\<close> and \<^verbatim>\<open>hash[SIZE_PROP]\<close> is an object literal
  \<^verbatim>\<open>{}\<close> filled with indices: its own properties, in creation order, and behind them
  the properties every object literal inherits from \<^verbatim>\<open>Object.prototype\<close>.
\<close>

type_synonym jsobj = "(string \<times> nat) list"

definition Object_prototype :: "string list" where
  "Object_prototype =
     [''constructor'', ''__defineGetter__'', ''__defineSetter__'', ''hasOwnProperty'',
      ''__lookupGetter__'', ''__lookupSetter__'', ''isPrototypeOf'',
      ''propertyIsEnumerable'', ''toString'', ''valueOf'', ''__proto__'',
      ''toLocaleString'']"

text \<open>\<^verbatim>\<open>obj[k]\<close>: the own property, else the inherited one, else \<^verbatim>\<open>undefined\<close>.\<close>

definition obj_get :: "jsobj \<Rightarrow> string \<Rightarrow> propval" where
  "obj_get obj k =
     (case map_of obj k of
        Some i \<Rightarrow> Index i
      | None \<Rightarrow> if k \<in> set Object_prototype then Inherited k else Absent)"

text \<open>Truthiness of what \<^verbatim>\<open>obj[k]\<close> gives: the index \<open>0\<close> is falsy, an inherited
  function is truthy.\<close>

fun truthy_prop :: "propval \<Rightarrow> bool" where
  "truthy_prop Absent = False"
| "truthy_prop (Index i) = (i \<noteq> 0)"
| "truthy_prop (Inherited k) = True"

text \<open>
  The source indexes \<^verbatim>\<open>hash\<close> with \<^verbatim>\<open>COLOR_PROP\<close> and \<^verbatim>\<open>SIZE_PROP\<close> only, and
  \<^verbatim>\<open>convert\<close> stores an object under both before any use; the hash is the function
  from these keys to the objects stored under them.
\<close>

type_synonym hash = "string \<Rightarrow> jsobj"

text \<open>
  \<^verbatim>\<open>makeMarkerGeoJSON(trace, hash)\<close> receives two objects by reference, and its
  comment says that it mutates the second. The store holds both objects; what works on
  them takes the store and returns it as the call leaves it.
\<close>

record store =
  st_trace :: trace
  st_hash :: hash

text \<open>
  \<^verbatim>\<open>translate(props, key, cont, index)\<close>, a closure over \<^verbatim>\<open>hash\<close>: it assigns
  \<^verbatim>\<open>hash[key][value] = index\<close> when \<^verbatim>\<open>!hash[key][value]\<close>, then
  \<^verbatim>\<open>props[key] = hash[key][value]\<close>.
\<close>

definition translate ::
  "env \<Rightarrow> (string \<times> propval) list \<Rightarrow> string \<Rightarrow> jsval list \<Rightarrow> nat \<Rightarrow> store
     \<Rightarrow> store \<times> (string \<times> propval) list" where
  "translate e props key cont index s =
     (let hash = st_hash s;
          val = toString e (js_nth cont index);
          hash' = (if \<not> truthy_prop (obj_get (hash key) val)
                   then hash(key := AList.update val index (hash key))
                   else hash)
      in (s\<lparr>st_hash := hash'\<rparr>, AList.update key (obj_get (hash' key) val) props))"

section \<open>Marker features\<close>

text \<open>One pass of the loop of \<^verbatim>\<open>makeMarkerGeoJSON\<close>, on the store and the features
  pushed so far.\<close>

definition makeMarkerGeoJSON_step ::
  "env \<Rightarrow> nat \<Rightarrow> store \<times> feature list \<Rightarrow> store \<times> feature list" where
  "makeMarkerGeoJSON_step e i st =
     (let s = fst st; feats = snd st;
          t = st_trace s;
          lon' = js_nth (lon t) i; lat' = js_nth (lat t) i;
          props = [];
          sp1 = (case color (marker t) of
                   Array cont \<Rightarrow> translate e props COLOR_PROP cont i s
                 | Scalar _ \<Rightarrow> (s, props));
          sp2 = (case marker_size (marker t) of
                   Array cont \<Rightarrow> translate e (snd sp1) SIZE_PROP cont i (fst sp1)
                 | Scalar _ \<Rightarrow> sp1)
      in (fst sp2,
          if checkLonLat e lon' lat'
          then feats @ [Feature (Point [toNumber e lon', toNumber e lat']) (snd sp2)]
          else feats))"

definition makeMarkerGeoJSON :: "env \<Rightarrow> store \<Rightarrow> geojson \<times> store" where
  "makeMarkerGeoJSON e s =
     (let len = getCoordLen (st_trace s);
          st = fold (makeMarkerGeoJSON_step e) [0..<len] (s, [])
      in (FeatureCollection (snd st), fst st))"

section \<open>Stops\<close>

text \<open>
  \<^verbatim>\<open>Object.keys\<close> lists the own keys that are array indices (canonical decimal
  numerals below \<open>2\<^sup>3\<^sup>2 - 1\<close>) in ascending numeric order, then the other keys in
  creation order.
\<close>

definition is_digit :: "char \<Rightarrow> bool" where
  "is_digit c = (48 \<le> (of_char c :: nat) \<and> (of_char c :: nat) \<le> 57)"

definition dec_val :: "string \<Rightarrow> nat" where
  "dec_val s = foldl (\<lambda>n c. 10 * n + (of_char c - 48)) 0 s"

fun is_array_index :: "string \<Rightarrow> bool" where
  "is_array_index [] = False"
| "is_array_index (c # cs) =
     (list_all is_digit (c # cs) \<and> (if c = CHR ''0'' then cs = [] else True)
      \<and> dec_val (c # cs) < 4294967295)"

definition Object_keys :: "jsobj \<Rightarrow> string list" where
  "Object_keys obj =
     (let ks = map fst obj
      in sort_key dec_val (filter is_array_index ks)
         @ filter (\<lambda>k. \<not> is_array_index k) ks)"

text \<open>
  The loop \<^verbatim>\<open>stops.push([obj[val], fn(val)])\<close> over \<^verbatim>\<open>vals\<close>. The keys come from
  \<^verbatim>\<open>Object.keys(obj)\<close>, so each is an own property of \<open>obj\<close> and the second
  branch is never taken (lemma \<open>stops_loop_own\<close> below).
\<close>

fun stops_loop :: "jsobj \<Rightarrow> (jsval \<Rightarrow> jsval) \<Rightarrow> string list \<Rightarrow> (nat \<times> jsval) list" where
  "stops_loop obj fn [] = []"
| "stops_loop obj fn (val # vals) =
     (case map_of obj val of
        Some idx \<Rightarrow> (idx, fn (Str val)) # stops_loop obj fn vals
      | None \<Rightarrow> stops_loop obj fn vals)"

definition identity :: "jsval \<Rightarrow> jsval" where
  \<comment> \<open>Modelled from the spec: \<^verbatim>\<open>Lib.identity\<close>, of the module \<^verbatim>\<open>lib\<close> that is not
     among the sources; the spec calls it the identity pass-through.\<close>
  "identity v = v"

definition calcMarkerColor :: "env \<Rightarrow> trace \<Rightarrow> hash \<Rightarrow> paintval" where
  "calcMarkerColor e t hash =
     (let m = marker t
      in case color m of
           Array _ \<Rightarrow>
             (let colorFn = (if hasColorscale e t ''marker''
                             then makeColorScaleFn e (colorscale m) (cmin m) (cmax m)
                             else identity);
                  vals = Object_keys (hash COLOR_PROP);
                  stops = stops_loop (hash COLOR_PROP) colorFn vals
              in StopSpec SIZE_PROP stops)
         | Scalar c \<Rightarrow> Value c)"

text \<open>\<^verbatim>\<open>stops.sort(function(a, b) { return a[0] - b[0]; })\<close> is \<^const>\<open>sort_key\<close> on
  the index.\<close>

definition calcMarkerSize :: "env \<Rightarrow> trace \<Rightarrow> hash \<Rightarrow> paintval" where
  "calcMarkerSize e t hash =
     (let m = marker t
      in case marker_size m of
           Array _ \<Rightarrow>
             (let sizeFn = makeBubbleSizeFn e t;
                  vals = Object_keys (hash SIZE_PROP);
                  stops = stops_loop (hash SIZE_PROP) sizeFn vals
              in StopSpec SIZE_PROP (sort_key fst stops))
         | Scalar s \<Rightarrow> Value (Num (js_divide (toNumber e s) (Finite 2))))"

section \<open>The converter\<close>

text \<open>
  \<^verbatim>\<open>convert(trace)\<close>. The source computes \<^verbatim>\<open>coords\<close> only when the fill or the line
  layer needs them and reads them in no other case. The hash is created in the marker
  branch, filled by \<^verbatim>\<open>makeMarkerGeoJSON\<close> and read by the two stop builders.
  \<open>convert_run\<close> gives the layers together with the caller's trace as the call leaves
  it; \<open>convert\<close> is what the caller receives.
\<close>

definition new_hash :: hash where
  \<comment> \<open>\<^verbatim>\<open>var hash = {}; hash[COLOR_PROP] = {}; hash[SIZE_PROP] = {};\<close>\<close>
  "new_hash = (\<lambda>_. [])(COLOR_PROP := [], SIZE_PROP := [])"

definition convert_run :: "env \<Rightarrow> trace \<Rightarrow> layers \<times> trace" where
  "convert_run e t =
     (let isVisible = (visible t = Bool True);
          hasFill = (trace.fill t \<noteq> Str ''none'');
          hasLines' = hasLines e t;
          hasMarkers' = hasMarkers e t;
          fill0 = initContainer;
          lines0 = initContainer;
          markers0 = initContainer;
          coords = getCoords e t;
          fill1 = (if isVisible \<and> hasFill
                   then \<lparr>geojson = makeFillGeoJSON t coords,
                         layout = (layout fill0)\<lparr>visibility := ''visible''\<rparr>,
                         paint = extendFlat e (paint fill0)
                                   [(''fill-color'', Value (fillcolor t))]\<rparr>
                   else fill0);
          lines1 = (if isVisible \<and> hasLines'
                    then \<lparr>geojson = makeLineGeoJSON t coords,
                          layout = (layout lines0)\<lparr>visibility := ''visible''\<rparr>,
                          paint = extendFlat e (paint lines0)
                                    [(''line-width'', Value (width (line t))),
                                     (''line-color'', Value (line_color (line t))),
                                     (''line-opacity'', Value (opacity t))]\<rparr>
                    else lines0);
          markers1 = (if isVisible \<and> hasMarkers'
                      then (let gs = makeMarkerGeoJSON e \<lparr>st_trace = t, st_hash = new_hash\<rparr>;
                                t' = st_trace (snd gs);
                                hash = st_hash (snd gs)
                            in (\<lparr>geojson = fst gs,
                                 layout = (layout markers0)\<lparr>visibility := ''visible''\<rparr>,
                                 paint = extendFlat e (paint markers0)
                                   [(''circle-opacity'',
                                       Value (Num (js_times (toNumber e (opacity t'))
                                         (toNumber e (marker_opacity (marker t')))))),
                                    (''circle-color'', calcMarkerColor e t' hash),
                                    (''circle-radius'', calcMarkerSize e t' hash)]\<rparr>,
                                t'))
                      else (markers0, t))
      in (\<lparr>layers.fill = fill1, lines = lines1, markers = fst markers1\<rparr>, snd markers1))"

definition convert :: "env \<Rightarrow> trace \<Rightarrow> layers" where
  "convert e t = fst (convert_run e t)"

section \<open>Notions the statements use\<close>

text \<open>The points of a trace, whether a point is valid, and the pair it contributes.\<close>

definition points :: "trace \<Rightarrow> (jsval \<times> jsval) list" where
  "points t = zip (lon t) (lat t)"

definition point_valid :: "env \<Rightarrow> jsval \<times> jsval \<Rightarrow> bool" where
  "point_valid e p = checkLonLat e (fst p) (snd p)"

definition point_coords :: "env \<Rightarrow> jsval \<times> jsval \<Rightarrow> jsnum list" where
  "point_coords e p = [toNumber e (fst p), toNumber e (snd p)]"

text \<open>
  The number of maximal runs of consecutive valid points in a sequence of validity
  flags: a run starts at every valid point that is the first point or follows an invalid
  one. The first argument of \<open>run_starts\<close> is the flag of the preceding point.
\<close>

fun run_starts :: "bool \<Rightarrow> bool list \<Rightarrow> nat" where
  "run_starts prev [] = 0"
| "run_starts prev (b # bs) = (if b \<and> \<not> prev then 1 else 0) + run_starts b bs"

definition valid_runs :: "bool list \<Rightarrow> nat" where
  "valid_runs bs = run_starts False bs"

text \<open>
  An instance of the collaborators for the closed examples, none of which has a string
  among its coordinates or a number in a style array: \<^verbatim>\<open>fast-isnumeric\<close> accepts the
  finite numbers and rejects \<^verbatim>\<open>NaN\<close>, the infinities and every value that is neither
  a number nor a string; no colour scale is configured, the bubble size function returns
  its argument, and \<^verbatim>\<open>Lib.extendFlat\<close> assigns the properties of its second argument
  to the first in order.
\<close>

definition finite_number :: "jsval \<Rightarrow> bool" where
  "finite_number v = (case v of Num (Finite _) \<Rightarrow> True | _ \<Rightarrow> False)"

definition example_env :: env where
  "example_env =
     \<lparr>isNumeric = finite_number,
      hasLines = (\<lambda>t. mode t = Str ''lines''),
      hasMarkers = (\<lambda>t. mode t = Str ''markers''),
      hasColorscale = (\<lambda>t k. False),
      makeColorScaleFn = (\<lambda>cs lo hi v. v),
      makeBubbleSizeFn = (\<lambda>t v. v),
      extendFlat = (\<lambda>target src. fold (\<lambda>kv. AList.update (fst kv) (snd kv)) src target),
      stringToNumber = (\<lambda>s. NaN),
      numberToString = (\<lambda>n. ''NaN'')\<rparr>"

definition example_trace :: trace where
  "example_trace =
     \<lparr>visible = Bool True, mode = Str ''markers'', fill = Str ''none'',
      fillcolor = Str ''#000'', opacity = Num (Finite 1), connectgaps = Bool False,
      lon = [Num (Finite 1), Num (Finite 2), Num NaN, Num (Finite 3)],
      lat = [Num (Finite 1), Num (Finite 2), Num NaN, Num (Finite 3)],
      line = \<lparr>width = Num (Finite 2), line_color = Str ''#444''\<rparr>,
      marker = \<lparr>color = Scalar (Str ''#444''), marker_size = Scalar (Num (Finite 10)),
                marker_opacity = Num (Finite 1), colorscale = [],
                cmin = Undefined, cmax = Undefined\<rparr>\<rparr>"

text \<open>Three valid points with \<^verbatim>\<open>marker.color = ['a', 'b', 'a']\<close>, and two with
  \<^verbatim>\<open>marker.color = ['5', '3']\<close>.\<close>

definition trace_aba :: trace where
  "trace_aba =
     example_trace
       \<lparr>lon := [Num (Finite 1), Num (Finite 2), Num (Finite 3)],
        lat := [Num (Finite 1), Num (Finite 2), Num (Finite 3)],
        marker := (marker example_trace)\<lparr>color := Array [Str ''a'', Str ''b'', Str ''a'']\<rparr>\<rparr>"

definition trace_53 :: trace where
  "trace_53 =
     example_trace
       \<lparr>lon := [Num (Finite 1), Num (Finite 2)],
        lat := [Num (Finite 1), Num (Finite 2)],
        marker := (marker example_trace)\<lparr>color := Array [Str ''5'', Str ''3'']\<rparr>\<rparr>"

text \<open>One invalid point between valid ones, with \<^verbatim>\<open>marker.color = ['x', 'a', 'b', 'b']\<close>
  on \<^verbatim>\<open>lon = lat = [1, NaN, NaN, 2]\<close>.\<close>

definition trace_xabb :: trace where
  "trace_xabb =
     example_trace
       \<lparr>lon := [Num (Finite 1), Num NaN, Num NaN, Num (Finite 2)],
        lat := [Num (Finite 1), Num NaN, Num NaN, Num (Finite 2)],
        marker := (marker example_trace)
           \<lparr>color := Array [Str ''x'', Str ''a'', Str ''b'', Str ''b'']\<rparr>\<rparr>"

text \<open>
  The property keys \<^verbatim>\<open>String(cont[i])\<close> an array-valued attribute presents at the
  points \<open>0, \<dots>, n - 1\<close>, valid or not; a scalar attribute presents none.
\<close>

definition style_keys :: "env \<Rightarrow> attr \<Rightarrow> nat \<Rightarrow> string list" where
  "style_keys e a n =
     (case a of
        Array cont \<Rightarrow> map (\<lambda>i. toString e (js_nth cont i)) [0..<n]
      | Scalar _ \<Rightarrow> [])"

definition own_keys :: "jsobj \<Rightarrow> string set" where
  "own_keys obj = fst ` set obj"

text \<open>What \<^verbatim>\<open>if(!obj[k]) obj[k] = i\<close> makes of an object.\<close>

definition record_index :: "jsobj \<Rightarrow> string \<Rightarrow> nat \<Rightarrow> jsobj" where
  "record_index obj k i =
     (if \<not> truthy_prop (obj_get obj k) then AList.update k i obj else obj)"

fun is_stop_spec :: "paintval \<Rightarrow> bool" where
  "is_stop_spec (StopSpec p st) = True"
| "is_stop_spec (Value v) = False"

text \<open>Three valid points with \<^verbatim>\<open>marker.size = ['20', '10', '20']\<close>.\<close>

definition trace_sizes :: trace where
  "trace_sizes =
     example_trace
       \<lparr>lon := [Num (Finite 1), Num (Finite 2), Num (Finite 3)],
        lat := [Num (Finite 1), Num (Finite 2), Num (Finite 3)],
        marker := (marker example_trace)
           \<lparr>marker_size := Array [Str ''20'', Str ''10'', Str ''20'']\<rparr>\<rparr>"

section \<open>Coordinate assembly\<close>

text \<open>
  C6. For every trace, also one with no point or with no valid point, the coordinates
  \<^verbatim>\<open>getCoords\<close> returns hold at least one sub-sequence: the current one is appended
  after the scan whether or not it is empty.
\<close>

theorem getCoords_nonempty: "1 \<le> length (getCoords e t) \<and> getCoords e t \<noteq> []"
  by (simp add: getCoords_def Let_def)

lemma points_take_Suc:
  "length (lon t) = length (lat t) \<Longrightarrow> n < length (lon t) \<Longrightarrow>
   take (Suc n) (points t) = take n (points t) @ [(js_nth (lon t) n, js_nth (lat t) n)]"
  by (simp add: points_def js_nth_def take_Suc_conv_app_nth)

lemma getCoords_step_valid:
  "point_valid e (js_nth (lon t) i, js_nth (lat t) i) \<Longrightarrow>
   getCoords_step e t i (cs, ls) =
     (cs, ls @ [point_coords e (js_nth (lon t) i, js_nth (lat t) i)])"
  by (simp add: getCoords_step_def point_valid_def point_coords_def Let_def)

lemma getCoords_step_invalid:
  "\<not> point_valid e (js_nth (lon t) i, js_nth (lat t) i) \<Longrightarrow>
   getCoords_step e t i (cs, ls) =
     (if \<not> truthy (connectgaps t) \<and> ls \<noteq> [] then (cs @ [ls], []) else (cs, ls))"
  by (simp add: getCoords_step_def point_valid_def Let_def)

text \<open>With \<^verbatim>\<open>connectgaps\<close> set, the scan never closes a sub-sequence.\<close>

lemma getCoords_scan_connect:
  assumes len: "length (lon t) = length (lat t)" and cg: "truthy (connectgaps t)"
  shows "n \<le> length (lon t) \<Longrightarrow>
         fold (getCoords_step e t) [0..<n] ([], []) =
           ([], map (point_coords e) (filter (point_valid e) (take n (points t))))"
proof (induction n)
  case 0
  show ?case by simp
next
  case (Suc n)
  then have n: "n < length (lon t)" by simp
  show ?case
    using Suc.IH n cg
    by (simp add: points_take_Suc [OF len n] getCoords_step_valid getCoords_step_invalid)
qed

text \<open>
  C5. When \<^verbatim>\<open>lon\<close> and \<^verbatim>\<open>lat\<close> have the same length and \<^verbatim>\<open>connectgaps\<close> is
  true, \<^verbatim>\<open>getCoords\<close> returns exactly one sub-sequence, and it holds the coordinate
  pairs of the valid points, and only these, in their original order.
\<close>

theorem getCoords_connectgaps:
  assumes "length (lon t) = length (lat t)" and "truthy (connectgaps t)"
  shows "getCoords e t = [map (point_coords e) (filter (point_valid e) (points t))]"
  using getCoords_scan_connect [OF assms, of "length (lon t)" e] assms(1)
  by (simp add: getCoords_def getCoordLen_def points_def)

text \<open>Scenario 2: the example trace with \<^verbatim>\<open>connectgaps\<close> set.\<close>

theorem getCoords_connectgaps_witness:
  "length (lon (example_trace\<lparr>connectgaps := Bool True\<rparr>))
     = length (lat (example_trace\<lparr>connectgaps := Bool True\<rparr>))
   \<and> truthy (connectgaps (example_trace\<lparr>connectgaps := Bool True\<rparr>))
   \<and> getCoords example_env (example_trace\<lparr>connectgaps := Bool True\<rparr>)
       = [[[Finite 1, Finite 1], [Finite 2, Finite 2], [Finite 3, Finite 3]]]"
  using getCoords_connectgaps [of "example_trace\<lparr>connectgaps := Bool True\<rparr>" example_env]
  by (simp add: example_trace_def example_env_def points_def point_valid_def
      point_coords_def checkLonLat_def finite_number_def)

text \<open>Without \<^verbatim>\<open>connectgaps\<close>: what the scan has built after \<open>n\<close> points.\<close>

lemma run_starts_snoc:
  "run_starts p (bs @ [b]) =
     run_starts p bs + (if b \<and> \<not> (if bs = [] then p else last bs) then 1 else 0)"
  by (induction bs arbitrary: p) auto

lemma getCoords_scan_gaps:
  assumes len: "length (lon t) = length (lat t)" and cg: "\<not> truthy (connectgaps t)"
  shows "n \<le> length (lon t) \<Longrightarrow>
         (case fold (getCoords_step e t) [0..<n] ([], []) of (cs, ls) \<Rightarrow>
            length cs + (if ls = [] then 0 else 1)
              = valid_runs (map (point_valid e) (take n (points t)))
            \<and> (ls \<noteq> [] \<longleftrightarrow> n \<noteq> 0 \<and> last (map (point_valid e) (take n (points t)))))"
proof (induction n)
  case 0
  show ?case by (simp add: valid_runs_def)
next
  case (Suc n)
  then have n: "n < length (lon t)" by simp
  obtain cs ls where st: "fold (getCoords_step e t) [0..<n] ([], []) = (cs, ls)"
    by (cases "fold (getCoords_step e t) [0..<n] ([], [])")
  have tk: "take n (points t) = [] \<longleftrightarrow> n = 0"
    using n len by (auto simp add: points_def)
  show ?case
  proof (cases "point_valid e (js_nth (lon t) n, js_nth (lat t) n)")
    case True
    then show ?thesis
      using Suc.IH n st cg tk
      by (auto simp add: points_take_Suc [OF len n] getCoords_step_valid valid_runs_def run_starts_snoc)
  next
    case False
    then show ?thesis
      using Suc.IH n st cg tk
      by (auto simp add: points_take_Suc [OF len n] getCoords_step_invalid valid_runs_def run_starts_snoc)
  qed
qed

lemma getCoords_length_gaps:
  assumes len: "length (lon t) = length (lat t)" and cg: "\<not> truthy (connectgaps t)"
  shows "length (getCoords e t) =
           valid_runs (map (point_valid e) (points t))
           + (if points t = [] \<or> \<not> last (map (point_valid e) (points t)) then 1 else 0)"
proof -
  obtain cs ls where st: "fold (getCoords_step e t) [0..<length (lon t)] ([], []) = (cs, ls)"
    by (cases "fold (getCoords_step e t) [0..<length (lon t)] ([], [])")
  have pe: "points t = [] \<longleftrightarrow> length (lon t) = 0"
    using len by (auto simp add: points_def)
  have tk: "take (length (lon t)) (points t) = points t"
    using len by (simp add: points_def)
  show ?thesis
    using getCoords_scan_gaps [OF len cg, of "length (lon t)" e] st pe
    by (auto simp add: getCoords_def getCoordLen_def tk)
qed

lemma getCoords_scan_all_invalid:
  assumes len: "length (lon t) = length (lat t)"
    and inv: "list_all (\<lambda>p. \<not> point_valid e p) (points t)"
  shows "n \<le> length (lon t) \<Longrightarrow> fold (getCoords_step e t) [0..<n] ([], []) = ([], [])"
proof (induction n)
  case 0
  show ?case by simp
next
  case (Suc n)
  then have n: "n < length (lon t)" by simp
  have "(js_nth (lon t) n, js_nth (lat t) n) \<in> set (points t)"
    using n len by (auto simp add: points_def js_nth_def set_zip)
  then have "\<not> point_valid e (js_nth (lon t) n, js_nth (lat t) n)"
    using inv by (simp add: list_all_iff)
  then show ?case
    using Suc.IH n by (simp add: getCoords_step_invalid)
qed

lemma getCoords_all_invalid:
  assumes "length (lon t) = length (lat t)"
    and "list_all (\<lambda>p. \<not> point_valid e p) (points t)"
  shows "getCoords e t = [[]]"
  using getCoords_scan_all_invalid [OF assms, of "length (lon t)"]
  by (simp add: getCoords_def getCoordLen_def)

lemma getCoords_scenario:
  assumes "isNumeric e (Num (Finite 1))" "isNumeric e (Num (Finite 2))"
    "isNumeric e (Num (Finite 3))" "\<not> isNumeric e (Num NaN)"
    "lon t = [Num (Finite 1), Num (Finite 2), Num NaN, Num (Finite 3)]"
    "lat t = [Num (Finite 1), Num (Finite 2), Num NaN, Num (Finite 3)]"
    "\<not> truthy (connectgaps t)"
  shows "getCoords e t = [[[Finite 1, Finite 1], [Finite 2, Finite 2]], [[Finite 3, Finite 3]]]"
  using assms
  by (simp add: getCoords_def getCoordLen_def getCoords_step_def checkLonLat_def js_nth_def
      upt_rec [of 0] upt_rec [of 1] upt_rec [of 2] upt_rec [of 3] upt_rec [of 4])

text \<open>
  The count of sub-sequences is not always the count of runs: when the last point is
  invalid, the scan closes the run before it and still appends the current sub-sequence,
  which is empty. For \<^verbatim>\<open>lon = lat = [1, NaN]\<close> there is one run and the result is
  \<^verbatim>\<open>[[[1, 1]], []]\<close>.
\<close>

theorem getCoords_runs_counterexample:
  "length (lon (example_trace\<lparr>lon := [Num (Finite 1), Num NaN], lat := [Num (Finite 1), Num NaN]\<rparr>))
     = length (lat (example_trace\<lparr>lon := [Num (Finite 1), Num NaN], lat := [Num (Finite 1), Num NaN]\<rparr>))
   \<and> \<not> truthy (connectgaps (example_trace\<lparr>lon := [Num (Finite 1), Num NaN], lat := [Num (Finite 1), Num NaN]\<rparr>))
   \<and> getCoords example_env
        (example_trace\<lparr>lon := [Num (Finite 1), Num NaN], lat := [Num (Finite 1), Num NaN]\<rparr>)
       = [[[Finite 1, Finite 1]], []]
   \<and> valid_runs (map (point_valid example_env)
        (points (example_trace\<lparr>lon := [Num (Finite 1), Num NaN], lat := [Num (Finite 1), Num NaN]\<rparr>)))
       = 1
   \<and> length (getCoords example_env
        (example_trace\<lparr>lon := [Num (Finite 1), Num NaN], lat := [Num (Finite 1), Num NaN]\<rparr>))
       \<noteq> valid_runs (map (point_valid example_env)
        (points (example_trace\<lparr>lon := [Num (Finite 1), Num NaN], lat := [Num (Finite 1), Num NaN]\<rparr>)))"
  by (simp add: example_trace_def example_env_def getCoords_def getCoordLen_def
      getCoords_step_def checkLonLat_def js_nth_def finite_number_def points_def
      point_valid_def valid_runs_def upt_rec [of 0] upt_rec [of 1] upt_rec [of 2])

text \<open>
  C4, as the code has it. When \<^verbatim>\<open>lon\<close> and \<^verbatim>\<open>lat\<close> have the same length and
  \<^verbatim>\<open>connectgaps\<close> is false, the number of sub-sequences \<^verbatim>\<open>getCoords\<close> returns is
  the number of maximal runs of consecutive valid points, plus one when there is no point
  or the last point is invalid (the sub-sequence appended after the scan is then empty).
  When every point is invalid the result is exactly one empty sub-sequence, and
  \<^verbatim>\<open>lon = lat = [1, 2, NaN, 3]\<close> gives \<^verbatim>\<open>[[[1, 1], [2, 2]], [[3, 3]]]\<close> with any
  \<^verbatim>\<open>isNumeric\<close> that accepts 1, 2 and 3 and rejects \<^verbatim>\<open>NaN\<close>.
\<close>

theorem getCoords_gaps:
  assumes "length (lon t) = length (lat t)" and "\<not> truthy (connectgaps t)"
  shows "length (getCoords e t) =
           valid_runs (map (point_valid e) (points t))
           + (if points t = [] \<or> \<not> last (map (point_valid e) (points t)) then 1 else 0)
         \<and> (list_all (\<lambda>p. \<not> point_valid e p) (points t) \<longrightarrow> getCoords e t = [[]])
         \<and> (isNumeric e (Num (Finite 1)) \<and> isNumeric e (Num (Finite 2))
              \<and> isNumeric e (Num (Finite 3)) \<and> \<not> isNumeric e (Num NaN)
              \<and> lon t = [Num (Finite 1), Num (Finite 2), Num NaN, Num (Finite 3)]
              \<and> lat t = [Num (Finite 1), Num (Finite 2), Num NaN, Num (Finite 3)]
            \<longrightarrow> getCoords e t
                  = [[[Finite 1, Finite 1], [Finite 2, Finite 2]], [[Finite 3, Finite 3]]])"
  using getCoords_length_gaps [OF assms] getCoords_all_invalid [OF assms(1)]
    getCoords_scenario [of e t] assms(2)
  by blast

text \<open>Scenario 1, and a trace none of whose points is valid.\<close>

theorem getCoords_gaps_witness:
  "length (lon example_trace) = length (lat example_trace)
   \<and> \<not> truthy (connectgaps example_trace)
   \<and> valid_runs (map (point_valid example_env) (points example_trace)) = 2
   \<and> length (getCoords example_env example_trace) = 2
   \<and> getCoords example_env example_trace
       = [[[Finite 1, Finite 1], [Finite 2, Finite 2]], [[Finite 3, Finite 3]]]
   \<and> list_all (\<lambda>p. \<not> point_valid example_env p)
        (points (example_trace\<lparr>lon := [Num NaN, Null], lat := [Num (Finite 1), Num NaN]\<rparr>))
   \<and> getCoords example_env
        (example_trace\<lparr>lon := [Num NaN, Null], lat := [Num (Finite 1), Num NaN]\<rparr>) = [[]]"
  using getCoords_gaps [of example_trace example_env]
    getCoords_gaps [of "example_trace\<lparr>lon := [Num NaN, Null], lat := [Num (Finite 1), Num NaN]\<rparr>"
      example_env]
  by (simp add: example_trace_def example_env_def points_def point_valid_def
      checkLonLat_def finite_number_def valid_runs_def)

section \<open>Hidden traces\<close>

text \<open>
  C7. When \<^verbatim>\<open>trace.visible\<close> is not \<^verbatim>\<open>true\<close>, \<^verbatim>\<open>convert\<close> returns the hidden
  placeholder for the fill, the line and the marker layer, whatever the other attributes
  of the trace are: a \<^verbatim>\<open>Point\<close> geometry without coordinates, the visibility
  \<^verbatim>\<open>none\<close> and an empty paint object.
\<close>

theorem convert_hidden:
  assumes "visible t \<noteq> Bool True"
  shows "convert e t =
           \<lparr>layers.fill = initContainer, lines = initContainer, markers = initContainer\<rparr>
         \<and> initContainer =
           \<lparr>geojson = Point [], layout = \<lparr>visibility = ''none''\<rparr>, paint = []\<rparr>"
  using assms
  by (simp add: convert_def convert_run_def initContainer_def makeBlankGeoJSON_def Let_def)

text \<open>A trace with \<^verbatim>\<open>visible: false\<close> and one with \<^verbatim>\<open>visible: 'legendonly'\<close>.\<close>

theorem convert_hidden_witness:
  "visible (example_trace\<lparr>visible := Bool False\<rparr>) \<noteq> Bool True
   \<and> layers.fill (convert example_env (example_trace\<lparr>visible := Bool False\<rparr>))
       = \<lparr>geojson = Point [], layout = \<lparr>visibility = ''none''\<rparr>, paint = []\<rparr>
   \<and> lines (convert example_env (example_trace\<lparr>visible := Bool False\<rparr>))
       = \<lparr>geojson = Point [], layout = \<lparr>visibility = ''none''\<rparr>, paint = []\<rparr>
   \<and> markers (convert example_env (example_trace\<lparr>visible := Str ''legendonly''\<rparr>))
       = \<lparr>geojson = Point [], layout = \<lparr>visibility = ''none''\<rparr>, paint = []\<rparr>"
  using convert_hidden [of "example_trace\<lparr>visible := Bool False\<rparr>" example_env]
    convert_hidden [of "example_trace\<lparr>visible := Str ''legendonly''\<rparr>" example_env]
  by (simp add: example_trace_def)

section \<open>The value-to-index hash after the scan\<close>

lemma COLOR_SIZE_neq: "COLOR_PROP \<noteq> SIZE_PROP"
  by (simp add: COLOR_PROP_def SIZE_PROP_def)

lemma translate_hash:
  "st_hash (fst (translate e props key cont i s)) =
     (st_hash s)(key := record_index (st_hash s key) (toString e (js_nth cont i)) i)"
  by (simp add: translate_def record_index_def Let_def)

text \<open>Nothing that works on the store writes to the trace.\<close>

lemma translate_trace: "st_trace (fst (translate e props key cont i s)) = st_trace s"
  by (simp add: translate_def Let_def)

lemma step_trace: "st_trace (fst (makeMarkerGeoJSON_step e i st)) = st_trace (fst st)"
  by (simp add: makeMarkerGeoJSON_step_def translate_trace Let_def split: attr.splits)

lemma scan_trace:
  "st_trace (fst (fold (makeMarkerGeoJSON_step e) [0..<n] st)) = st_trace (fst st)"
  by (induction n) (simp_all add: step_trace)

lemma makeMarkerGeoJSON_trace: "st_trace (snd (makeMarkerGeoJSON e s)) = st_trace s"
  by (simp add: makeMarkerGeoJSON_def scan_trace Let_def)

text \<open>The colour pass and the size pass of one iteration touch different objects of the hash.\<close>

lemma step_hash_color:
  "st_hash (fst (makeMarkerGeoJSON_step e i st)) COLOR_PROP =
     (case color (marker (st_trace (fst st))) of
        Array cont \<Rightarrow> record_index (st_hash (fst st) COLOR_PROP) (toString e (js_nth cont i)) i
      | Scalar _ \<Rightarrow> st_hash (fst st) COLOR_PROP)"
  using COLOR_SIZE_neq
  by (simp add: makeMarkerGeoJSON_step_def translate_hash translate_trace Let_def
      split: attr.splits)

lemma step_hash_size:
  "st_hash (fst (makeMarkerGeoJSON_step e i st)) SIZE_PROP =
     (case marker_size (marker (st_trace (fst st))) of
        Array cont \<Rightarrow> record_index (st_hash (fst st) SIZE_PROP) (toString e (js_nth cont i)) i
      | Scalar _ \<Rightarrow> st_hash (fst st) SIZE_PROP)"
  using COLOR_SIZE_neq
  by (simp add: makeMarkerGeoJSON_step_def translate_hash translate_trace Let_def
      split: attr.splits)

lemma length_style_keys: "length (style_keys e (Array cont) n) = n"
  by (simp add: style_keys_def)

lemma style_keys_nth:
  "i < n \<Longrightarrow> style_keys e (Array cont) n ! i = toString e (js_nth cont i)"
  by (simp add: style_keys_def)

text \<open>One guarded assignment: which keys the object has, and what they map to.\<close>

lemma own_keys_record_index:
  assumes "own_keys obj \<inter> set Object_prototype = {}"
  shows "own_keys (record_index obj k i) =
           own_keys obj \<union> (if k \<in> set Object_prototype then {} else {k})"
proof (cases "map_of obj k")
  case None
  then show ?thesis
    by (auto simp add: own_keys_def record_index_def obj_get_def AList.dom_update)
next
  case (Some j)
  then have "k \<in> own_keys obj"
    by (auto simp add: own_keys_def dest: map_of_SomeD intro: rev_image_eqI)
  then show ?thesis
    using assms Some
    by (auto simp add: own_keys_def record_index_def obj_get_def AList.dom_update)
qed

lemma map_of_record_index_other:
  "k' \<noteq> k \<Longrightarrow> map_of (record_index obj k i) k' = map_of obj k'"
  by (simp add: record_index_def update_conv')

lemma map_of_record_index_kept:
  "map_of obj k = Some j \<Longrightarrow> j \<noteq> 0 \<Longrightarrow> map_of (record_index obj k i) k = Some j"
  by (simp add: record_index_def obj_get_def)

lemma map_of_record_index_new:
  assumes "k \<notin> own_keys obj" and "k \<notin> set Object_prototype"
  shows "map_of (record_index obj k i) k = Some i"
proof -
  from assms(1) have "map_of obj k = None"
    by (simp add: own_keys_def map_of_eq_None_iff)
  with assms(2) show ?thesis
    by (simp add: record_index_def obj_get_def update_conv')
qed

text \<open>
  A sequence of objects, each made from the one before by the guarded assignment of the
  next key: the keys recorded are the keys presented that \<^verbatim>\<open>Object.prototype\<close> does not
  hold, and a key presented first at a position \<open>p > 0\<close> maps to \<open>p\<close> from then on.
\<close>

lemma record_scan_inv:
  fixes obj :: "nat \<Rightarrow> jsobj"
  assumes init: "obj 0 = []"
    and step: "\<And>i. i < length ks \<Longrightarrow> obj (Suc i) = record_index (obj i) (ks ! i) i"
  shows "n \<le> length ks \<Longrightarrow>
         own_keys (obj n) = {k \<in> set (take n ks). k \<notin> set Object_prototype}
         \<and> (\<forall>p. 0 < p \<and> p < n \<and> ks ! p \<notin> set (take p ks) \<and> ks ! p \<notin> set Object_prototype
                \<longrightarrow> map_of (obj n) (ks ! p) = Some p)"
proof (induction n)
  case 0
  show ?case by (simp add: init own_keys_def)
next
  case (Suc n)
  then have n: "n < length ks" by simp
  from Suc have keys: "own_keys (obj n) = {k \<in> set (take n ks). k \<notin> set Object_prototype}"
    and idx: "\<And>p. 0 < p \<Longrightarrow> p < n \<Longrightarrow> ks ! p \<notin> set (take p ks)
                \<Longrightarrow> ks ! p \<notin> set Object_prototype \<Longrightarrow> map_of (obj n) (ks ! p) = Some p"
    by simp_all
  have disj: "own_keys (obj n) \<inter> set Object_prototype = {}"
    using keys by auto
  have keys': "own_keys (obj (Suc n)) = {k \<in> set (take (Suc n) ks). k \<notin> set Object_prototype}"
    using n keys by (auto simp add: step own_keys_record_index [OF disj] take_Suc_conv_app_nth)
  have idx': "map_of (obj (Suc n)) (ks ! p) = Some p"
    if p: "0 < p" "p < Suc n" "ks ! p \<notin> set (take p ks)" "ks ! p \<notin> set Object_prototype" for p
  proof (cases "p = n")
    case True
    with p keys have "ks ! n \<notin> own_keys (obj n)" by simp
    with p True show ?thesis
      by (simp add: step n map_of_record_index_new)
  next
    case False
    with p have pn: "p < n" by simp
    have old: "map_of (obj n) (ks ! p) = Some p"
      using idx p pn by simp
    show ?thesis
    proof (cases "ks ! n = ks ! p")
      case True
      with old p show ?thesis
        by (simp add: step n map_of_record_index_kept)
    next
      case False
      then have "ks ! p \<noteq> ks ! n" by simp
      with old show ?thesis
        by (simp add: step n map_of_record_index_other)
    qed
  qed
  show ?case using keys' idx' by blast
qed

lemma scan_hash_color_Suc:
  "st_hash (fst (fold (makeMarkerGeoJSON_step e) [0..<Suc n] (s, fs))) COLOR_PROP =
     (case color (marker (st_trace s)) of
        Array cont \<Rightarrow>
          record_index (st_hash (fst (fold (makeMarkerGeoJSON_step e) [0..<n] (s, fs))) COLOR_PROP)
            (toString e (js_nth cont n)) n
      | Scalar _ \<Rightarrow> st_hash (fst (fold (makeMarkerGeoJSON_step e) [0..<n] (s, fs))) COLOR_PROP)"
  by (simp add: step_hash_color scan_trace)

lemma scan_hash_size_Suc:
  "st_hash (fst (fold (makeMarkerGeoJSON_step e) [0..<Suc n] (s, fs))) SIZE_PROP =
     (case marker_size (marker (st_trace s)) of
        Array cont \<Rightarrow>
          record_index (st_hash (fst (fold (makeMarkerGeoJSON_step e) [0..<n] (s, fs))) SIZE_PROP)
            (toString e (js_nth cont n)) n
      | Scalar _ \<Rightarrow> st_hash (fst (fold (makeMarkerGeoJSON_step e) [0..<n] (s, fs))) SIZE_PROP)"
  by (simp add: step_hash_size scan_trace)

lemma new_hash_empty: "new_hash COLOR_PROP = []" "new_hash SIZE_PROP = []"
  by (simp_all add: new_hash_def)

lemma scan_hash_color_scalar:
  "color (marker (st_trace s)) = Scalar c \<Longrightarrow>
   st_hash (fst (fold (makeMarkerGeoJSON_step e) [0..<n] (s, fs))) COLOR_PROP = st_hash s COLOR_PROP"
  by (induction n) (simp_all add: scan_hash_color_Suc del: upt_Suc)

lemma scan_hash_size_scalar:
  "marker_size (marker (st_trace s)) = Scalar c \<Longrightarrow>
   st_hash (fst (fold (makeMarkerGeoJSON_step e) [0..<n] (s, fs))) SIZE_PROP = st_hash s SIZE_PROP"
  by (induction n) (simp_all add: scan_hash_size_Suc del: upt_Suc)

lemma makeMarkerGeoJSON_store:
  "snd (makeMarkerGeoJSON e s) =
     fst (fold (makeMarkerGeoJSON_step e) [0..<getCoordLen (st_trace s)] (s, []))"
  by (simp add: makeMarkerGeoJSON_def Let_def)

lemma hash_color_recorded:
  fixes e t
  defines "ks \<equiv> style_keys e (color (marker t)) (getCoordLen t)"
    and "h \<equiv> st_hash (snd (makeMarkerGeoJSON e \<lparr>st_trace = t, st_hash = new_hash\<rparr>))"
  shows "own_keys (h COLOR_PROP) = {k \<in> set ks. k \<notin> set Object_prototype}
         \<and> (\<forall>p. 0 < p \<and> p < length ks \<and> ks ! p \<notin> set (take p ks) \<and> ks ! p \<notin> set Object_prototype
                \<longrightarrow> map_of (h COLOR_PROP) (ks ! p) = Some p)"
proof (cases "color (marker t)")
  case (Scalar c)
  then show ?thesis
    by (simp add: ks_def h_def style_keys_def makeMarkerGeoJSON_store scan_hash_color_scalar
        new_hash_empty own_keys_def)
next
  case (Array cont)
  define obj where
    "obj n = st_hash (fst (fold (makeMarkerGeoJSON_step e) [0..<n]
                (\<lparr>st_trace = t, st_hash = new_hash\<rparr>, []))) COLOR_PROP" for n
  have ks: "ks = style_keys e (Array cont) (getCoordLen t)"
    by (simp add: ks_def Array)
  have len: "length ks = getCoordLen t"
    by (simp add: ks length_style_keys)
  have init: "obj 0 = []"
    by (simp add: obj_def new_hash_empty)
  have step: "obj (Suc i) = record_index (obj i) (ks ! i) i" if "i < length ks" for i
    using that len by (simp add: obj_def scan_hash_color_Suc Array ks style_keys_nth del: upt_Suc)
  have "h COLOR_PROP = obj (length ks)"
    by (simp add: h_def makeMarkerGeoJSON_store obj_def len)
  then show ?thesis
    using record_scan_inv [of obj ks "length ks", OF init step] by simp
qed

lemma hash_size_recorded:
  fixes e t
  defines "ks \<equiv> style_keys e (marker_size (marker t)) (getCoordLen t)"
    and "h \<equiv> st_hash (snd (makeMarkerGeoJSON e \<lparr>st_trace = t, st_hash = new_hash\<rparr>))"
  shows "own_keys (h SIZE_PROP) = {k \<in> set ks. k \<notin> set Object_prototype}
         \<and> (\<forall>p. 0 < p \<and> p < length ks \<and> ks ! p \<notin> set (take p ks) \<and> ks ! p \<notin> set Object_prototype
                \<longrightarrow> map_of (h SIZE_PROP) (ks ! p) = Some p)"
proof (cases "marker_size (marker t)")
  case (Scalar c)
  then show ?thesis
    by (simp add: ks_def h_def style_keys_def makeMarkerGeoJSON_store scan_hash_size_scalar
        new_hash_empty own_keys_def)
next
  case (Array cont)
  define obj where
    "obj n = st_hash (fst (fold (makeMarkerGeoJSON_step e) [0..<n]
                (\<lparr>st_trace = t, st_hash = new_hash\<rparr>, []))) SIZE_PROP" for n
  have ks: "ks = style_keys e (Array cont) (getCoordLen t)"
    by (simp add: ks_def Array)
  have len: "length ks = getCoordLen t"
    by (simp add: ks length_style_keys)
  have init: "obj 0 = []"
    by (simp add: obj_def new_hash_empty)
  have step: "obj (Suc i) = record_index (obj i) (ks ! i) i" if "i < length ks" for i
    using that len by (simp add: obj_def scan_hash_size_Suc Array ks style_keys_nth del: upt_Suc)
  have "h SIZE_PROP = obj (length ks)"
    by (simp add: h_def makeMarkerGeoJSON_store obj_def len)
  then show ?thesis
    using record_scan_inv [of obj ks "length ks", OF init step] by simp
qed

text \<open>The definitions a closed example unfolds.\<close>

lemmas eval_defs =
  makeMarkerGeoJSON_def makeMarkerGeoJSON_step_def translate_def getCoordLen_def
  example_trace_def example_env_def new_hash_def COLOR_PROP_def SIZE_PROP_def
  obj_get_def Object_prototype_def js_nth_def checkLonLat_def finite_number_def Let_def

text \<open>
  Indexing does not wait for a valid point. On \<^verbatim>\<open>lon = lat = [1, NaN, NaN, 2]\<close> with
  \<^verbatim>\<open>marker.color = ['x', 'a', 'b', 'b']\<close> the value \<^verbatim>\<open>'a'\<close> occurs at an invalid
  point only and is recorded with index 1, and \<^verbatim>\<open>'b'\<close>, whose first valid occurrence
  is at position 3, is recorded with index 2.
\<close>

theorem marker_hash_invalid_counterexample:
  "\<not> point_valid example_env (points trace_xabb ! 1)
   \<and> \<not> point_valid example_env (points trace_xabb ! 2)
   \<and> point_valid example_env (points trace_xabb ! 3)
   \<and> color (marker trace_xabb) = Array [Str ''x'', Str ''a'', Str ''b'', Str ''b'']
   \<and> st_hash (snd (makeMarkerGeoJSON example_env \<lparr>st_trace = trace_xabb, st_hash = new_hash\<rparr>))
        COLOR_PROP = [(''x'', 0), (''a'', 1), (''b'', 2)]"
  by (simp add: eval_defs trace_xabb_def points_def point_valid_def
      upt_rec [of 0] upt_rec [of 1] upt_rec [of 2] upt_rec [of 3] upt_rec [of 4])

text \<open>
  C3, as the code has it. \<^verbatim>\<open>makeMarkerGeoJSON\<close> calls \<^verbatim>\<open>translate\<close> for every point
  before it checks the point, so a raw value of an array-valued marker attribute is
  recorded when it is met at any point, valid or not: after the scan the keys of each
  per-property map are the keys of the values at all points, those that name a property
  inherited from \<^verbatim>\<open>Object.prototype\<close> excepted. A value whose first occurrence among
  all points is at a position \<open>p > 0\<close> has the index \<open>p\<close>.
\<close>

theorem marker_hash_recorded:
  fixes e t p
  defines "h \<equiv> st_hash (snd (makeMarkerGeoJSON e \<lparr>st_trace = t, st_hash = new_hash\<rparr>))"
    and "cks \<equiv> style_keys e (color (marker t)) (getCoordLen t)"
    and "sks \<equiv> style_keys e (marker_size (marker t)) (getCoordLen t)"
  shows "own_keys (h COLOR_PROP) = {k \<in> set cks. k \<notin> set Object_prototype}
       \<and> own_keys (h SIZE_PROP) = {k \<in> set sks. k \<notin> set Object_prototype}
       \<and> (0 < p \<and> p < length cks \<and> cks ! p \<notin> set (take p cks)
            \<and> cks ! p \<notin> set Object_prototype
          \<longrightarrow> map_of (h COLOR_PROP) (cks ! p) = Some p)
       \<and> (0 < p \<and> p < length sks \<and> sks ! p \<notin> set (take p sks)
            \<and> sks ! p \<notin> set Object_prototype
          \<longrightarrow> map_of (h SIZE_PROP) (sks ! p) = Some p)"
  using hash_color_recorded [of e t] hash_size_recorded [of e t]
  unfolding h_def cks_def sks_def by blast

text \<open>The colours above at position 2, and the sizes \<^verbatim>\<open>['20', '10', '20']\<close> at position 1.\<close>

theorem marker_hash_recorded_witness:
  "style_keys example_env (color (marker trace_xabb)) (getCoordLen trace_xabb)
     = [''x'', ''a'', ''b'', ''b'']
   \<and> own_keys (st_hash (snd (makeMarkerGeoJSON example_env
         \<lparr>st_trace = trace_xabb, st_hash = new_hash\<rparr>)) COLOR_PROP) = {''x'', ''a'', ''b''}
   \<and> map_of (st_hash (snd (makeMarkerGeoJSON example_env
         \<lparr>st_trace = trace_xabb, st_hash = new_hash\<rparr>)) COLOR_PROP) ''b'' = Some 2
   \<and> style_keys example_env (marker_size (marker trace_sizes)) (getCoordLen trace_sizes)
     = [''20'', ''10'', ''20'']
   \<and> map_of (st_hash (snd (makeMarkerGeoJSON example_env
         \<lparr>st_trace = trace_sizes, st_hash = new_hash\<rparr>)) SIZE_PROP) ''10'' = Some 1"
proof -
  have c: "style_keys example_env (color (marker trace_xabb)) (getCoordLen trace_xabb)
             = [''x'', ''a'', ''b'', ''b'']"
    by (simp add: style_keys_def trace_xabb_def example_trace_def getCoordLen_def js_nth_def
        upt_rec [of 0] upt_rec [of 1] upt_rec [of 2] upt_rec [of 3] upt_rec [of 4])
  have s: "style_keys example_env (marker_size (marker trace_sizes)) (getCoordLen trace_sizes)
             = [''20'', ''10'', ''20'']"
    by (simp add: style_keys_def trace_sizes_def example_trace_def getCoordLen_def js_nth_def
        upt_rec [of 0] upt_rec [of 1] upt_rec [of 2] upt_rec [of 3])
  have cp: "{k \<in> set [''x'', ''a'', ''b'', ''b'']. k \<notin> set Object_prototype}
              = {''x'', ''a'', ''b''}"
    by (auto simp add: Object_prototype_def)
  have c2: "(0::nat) < 2 \<and> 2 < length [''x'', ''a'', ''b'', ''b'']
            \<and> [''x'', ''a'', ''b'', ''b''] ! 2 \<notin> set (take 2 [''x'', ''a'', ''b'', ''b''])
            \<and> [''x'', ''a'', ''b'', ''b''] ! 2 \<notin> set Object_prototype"
    by (simp add: Object_prototype_def)
  have s1: "(0::nat) < 1 \<and> 1 < length [''20'', ''10'', ''20'']
            \<and> [''20'', ''10'', ''20''] ! 1 \<notin> set (take 1 [''20'', ''10'', ''20''])
            \<and> [''20'', ''10'', ''20''] ! 1 \<notin> set Object_prototype"
    by (simp add: Object_prototype_def)
  have n2: "[''x'', ''a'', ''b'', ''b''] ! 2 = ''b''" by simp
  have n1: "[''20'', ''10'', ''20''] ! 1 = ''10''" by simp
  show ?thesis
    using marker_hash_recorded [of example_env trace_xabb 2, unfolded c]
      marker_hash_recorded [of example_env trace_sizes 1, unfolded s]
      c s cp c2 s1 n2 n1
    by metis
qed

section \<open>Repeated values and the order of stops\<close>

text \<open>Three valid points with \<^verbatim>\<open>marker.color = ['a', 'b', 'a']\<close> and no colour scale.\<close>

lemma aba_hash:
  "st_hash (snd (makeMarkerGeoJSON example_env \<lparr>st_trace = trace_aba, st_hash = new_hash\<rparr>))
     COLOR_PROP = [(''a'', 2), (''b'', 1)]"
  by (simp add: eval_defs trace_aba_def
      upt_rec [of 0] upt_rec [of 1] upt_rec [of 2] upt_rec [of 3])

lemma aba_features:
  "fst (makeMarkerGeoJSON example_env \<lparr>st_trace = trace_aba, st_hash = new_hash\<rparr>)
     = FeatureCollection
         [Feature (Point [Finite 1, Finite 1]) [(''circle-color'', Index 0)],
          Feature (Point [Finite 2, Finite 2]) [(''circle-color'', Index 1)],
          Feature (Point [Finite 3, Finite 3]) [(''circle-color'', Index 2)]]"
  by (simp add: eval_defs trace_aba_def
      upt_rec [of 0] upt_rec [of 1] upt_rec [of 2] upt_rec [of 3])

lemma keys_ab: "Object_keys [(''a'', i), (''b'', j)] = [''a'', ''b'']"
  by (simp add: Object_keys_def is_digit_def)

lemma aba_color:
  "calcMarkerColor example_env trace_aba
     (st_hash (snd (makeMarkerGeoJSON example_env \<lparr>st_trace = trace_aba, st_hash = new_hash\<rparr>)))
     = StopSpec ''circle-size'' [(2, Str ''a''), (1, Str ''b'')]"
proof -
  have m: "color (marker trace_aba) = Array [Str ''a'', Str ''b'', Str ''a'']"
    "\<not> hasColorscale example_env trace_aba ''marker''"
    by (simp_all add: trace_aba_def example_trace_def example_env_def)
  show ?thesis
    by (simp add: calcMarkerColor_def aba_hash keys_ab identity_def Let_def SIZE_PROP_def m)
qed

lemma aba_size:
  "calcMarkerSize example_env trace_aba h = Value (Num (Finite 5))"
  by (simp add: calcMarkerSize_def trace_aba_def example_trace_def Let_def)

text \<open>
  C1. The specification has a repeated value reuse the index of its first occurrence, so
  that \<^verbatim>\<open>['a', 'b', 'a']\<close> gives the indices \<^verbatim>\<open>{a: 0, b: 1}\<close>, the stops
  \<^verbatim>\<open>[[0, 'a'], [1, 'b']]\<close> and the feature indices 0, 1, 0. In the code the guard
  \<^verbatim>\<open>!hash[key][value]\<close> of \<^verbatim>\<open>translate\<close> also holds when the recorded index is 0,
  so the value of point 0 is recorded again at each later occurrence: on three valid
  points with these colours the hash ends as \<^verbatim>\<open>{a: 2, b: 1}\<close>, the features carry the
  indices 0, 1, 2, and the stops \<^verbatim>\<open>convert\<close> returns are \<^verbatim>\<open>[[2, 'a'], [1, 'b']]\<close>.
\<close>

theorem translate_overwrites_index_zero:
  "st_hash (snd (makeMarkerGeoJSON example_env \<lparr>st_trace = trace_aba, st_hash = new_hash\<rparr>))
     COLOR_PROP = [(''a'', 2), (''b'', 1)]
   \<and> map properties
        (features (fst (makeMarkerGeoJSON example_env
           \<lparr>st_trace = trace_aba, st_hash = new_hash\<rparr>)))
       = [[(''circle-color'', Index 0)], [(''circle-color'', Index 1)],
          [(''circle-color'', Index 2)]]
   \<and> visible trace_aba = Bool True \<and> hasMarkers example_env trace_aba
   \<and> geojson (markers (convert example_env trace_aba))
       = FeatureCollection
         [Feature (Point [Finite 1, Finite 1]) [(''circle-color'', Index 0)],
          Feature (Point [Finite 2, Finite 2]) [(''circle-color'', Index 1)],
          Feature (Point [Finite 3, Finite 3]) [(''circle-color'', Index 2)]]
   \<and> paint (markers (convert example_env trace_aba))
       = [(''circle-opacity'', Value (Num (Finite 1))),
          (''circle-color'', StopSpec ''circle-size'' [(2, Str ''a''), (1, Str ''b'')]),
          (''circle-radius'', Value (Num (Finite 5)))]"
proof -
  have v: "visible trace_aba = Bool True" "hasMarkers example_env trace_aba"
    "opacity trace_aba = Num (Finite 1)" "marker_opacity (marker trace_aba) = Num (Finite 1)"
    by (simp_all add: trace_aba_def example_trace_def example_env_def)
  have x: "extendFlat example_env [] kvs = fold (\<lambda>kv. AList.update (fst kv) (snd kv)) kvs []"
    for kvs
    by (simp add: example_env_def)
  show ?thesis
    by (simp add: aba_hash aba_features convert_def convert_run_def Let_def v
        makeMarkerGeoJSON_trace aba_color aba_size initContainer_def x)
qed

text \<open>Two valid points with \<^verbatim>\<open>marker.color = ['5', '3']\<close>: \<^verbatim>\<open>Object.keys\<close> lists \<^verbatim>\<open>'3'\<close> first.\<close>

lemma hash_53:
  "st_hash (snd (makeMarkerGeoJSON example_env \<lparr>st_trace = trace_53, st_hash = new_hash\<rparr>))
        COLOR_PROP = [(''5'', 0), (''3'', 1)]"
  by (simp add: eval_defs trace_53_def upt_rec [of 0] upt_rec [of 1] upt_rec [of 2])

lemma keys_53: "Object_keys [(''5'', i), (''3'', j)] = [''3'', ''5'']"
  by (simp add: Object_keys_def is_digit_def dec_val_def)

lemma color_53:
  "calcMarkerColor example_env trace_53
     (st_hash (snd (makeMarkerGeoJSON example_env \<lparr>st_trace = trace_53, st_hash = new_hash\<rparr>)))
     = StopSpec ''circle-size'' [(1, Str ''3''), (0, Str ''5'')]"
proof -
  have m: "color (marker trace_53) = Array [Str ''5'', Str ''3'']"
    "\<not> hasColorscale example_env trace_53 ''marker''"
    by (simp_all add: trace_53_def example_trace_def example_env_def)
  show ?thesis
    by (simp add: hash_53 keys_53 calcMarkerColor_def identity_def Let_def SIZE_PROP_def m)
qed

text \<open>
  C2. The specification has both stop lists sorted ascending by index.
  \<^verbatim>\<open>calcMarkerSize\<close> sorts its stops (lemma \<open>calcMarkerSize_stops_sorted\<close> below);
  \<^verbatim>\<open>calcMarkerColor\<close> does not, and its stops come out of order for
  \<^verbatim>\<open>['a', 'b', 'a']\<close>, where index 0 was overwritten, and for \<^verbatim>\<open>['5', '3']\<close>, where
  the keys are array indices and \<^verbatim>\<open>Object.keys\<close> lists them in numeric order.
\<close>

theorem color_stops_unsorted:
  "calcMarkerColor example_env trace_aba
     (st_hash (snd (makeMarkerGeoJSON example_env \<lparr>st_trace = trace_aba, st_hash = new_hash\<rparr>)))
     = StopSpec ''circle-size'' [(2, Str ''a''), (1, Str ''b'')]
   \<and> \<not> sorted (map fst [(2::nat, Str ''a''), (1, Str ''b'')])
   \<and> st_hash (snd (makeMarkerGeoJSON example_env \<lparr>st_trace = trace_53, st_hash = new_hash\<rparr>))
        COLOR_PROP = [(''5'', 0), (''3'', 1)]
   \<and> calcMarkerColor example_env trace_53
     (st_hash (snd (makeMarkerGeoJSON example_env \<lparr>st_trace = trace_53, st_hash = new_hash\<rparr>)))
     = StopSpec ''circle-size'' [(1, Str ''3''), (0, Str ''5'')]
   \<and> \<not> sorted (map fst [(1::nat, Str ''3''), (0, Str ''5'')])"
  by (simp add: aba_color hash_53 color_53)

text \<open>The size stops are sorted, whatever the hash holds.\<close>

lemma calcMarkerSize_stops_sorted:
  "isArray (marker_size (marker t)) \<Longrightarrow> sorted (map fst (stops (calcMarkerSize e t h)))"
  by (cases "marker_size (marker t)") (simp_all add: calcMarkerSize_def Let_def)

lemma hash_sizes:
  "st_hash (snd (makeMarkerGeoJSON example_env \<lparr>st_trace = trace_sizes, st_hash = new_hash\<rparr>))
        SIZE_PROP = [(''20'', 2), (''10'', 1)]"
  by (simp add: eval_defs trace_sizes_def
     upt_rec [of 0] upt_rec [of 1] upt_rec [of 2] upt_rec [of 3])

lemma keys_sizes: "Object_keys [(''20'', i), (''10'', j)] = [''10'', ''20'']"
  by (simp add: Object_keys_def is_digit_def dec_val_def)

lemma size_stops_example:
  "calcMarkerSize example_env trace_sizes
     (st_hash (snd (makeMarkerGeoJSON example_env \<lparr>st_trace = trace_sizes, st_hash = new_hash\<rparr>)))
     = StopSpec ''circle-size'' [(1, Str ''10''), (2, Str ''20'')]"
proof -
  have m: "marker_size (marker trace_sizes) = Array [Str ''20'', Str ''10'', Str ''20'']"
    "makeBubbleSizeFn example_env trace_sizes = (\<lambda>v. v)"
    by (simp_all add: trace_sizes_def example_trace_def example_env_def)
  show ?thesis
    by (simp add: hash_sizes [unfolded SIZE_PROP_def] keys_sizes calcMarkerSize_def Let_def
        SIZE_PROP_def m)
qed

text \<open>
  The indices the scan records under one property are distinct, so the sorted size stops
  do not depend on how \<^verbatim>\<open>Array.prototype.sort\<close> orders equal keys.
\<close>

lemma snd_update_subset: "snd ` set (AList.update k v al) \<subseteq> insert v (snd ` set al)"
  by (induction al) auto

lemma distinct_snd_update:
  "v \<notin> snd ` set al \<Longrightarrow> distinct (map snd al) \<Longrightarrow> distinct (map snd (AList.update k v al))"
proof (induction al)
  case Nil
  show ?case by simp
next
  case (Cons p al)
  show ?case
  proof (cases "fst p = k")
    case True
    with Cons.prems show ?thesis by (cases p) auto
  next
    case False
    have "snd p \<notin> snd ` set (AList.update k v al)"
      using Cons.prems snd_update_subset [of k v al] by auto
    with False Cons show ?thesis by (cases p) auto
  qed
qed

lemma record_scan_distinct:
  fixes obj :: "nat \<Rightarrow> jsobj"
  assumes init: "obj 0 = []"
    and step: "\<And>i. i < m \<Longrightarrow> obj (Suc i) = record_index (obj i) (ks ! i) i"
  shows "n \<le> m \<Longrightarrow> distinct (map snd (obj n)) \<and> (\<forall>v \<in> snd ` set (obj n). v < n)"
proof (induction n)
  case 0
  show ?case by (simp add: init)
next
  case (Suc n)
  then have n: "n < m" and d: "distinct (map snd (obj n))"
    and b: "\<forall>v \<in> snd ` set (obj n). v < n"
    by simp_all
  from b have fresh: "n \<notin> snd ` set (obj n)" by auto
  have "distinct (map snd (obj (Suc n)))"
    using d fresh by (simp add: step [OF n] record_index_def distinct_snd_update)
  moreover have "v < Suc n" if "v \<in> snd ` set (obj (Suc n))" for v
  proof (cases "truthy_prop (obj_get (obj n) (ks ! n))")
    case True
    with that b show ?thesis
      by (auto simp add: step [OF n] record_index_def less_Suc_eq)
  next
    case False
    with that have "v \<in> insert n (snd ` set (obj n))"
      using snd_update_subset [of "ks ! n" n "obj n"]
      by (auto simp add: step [OF n] record_index_def)
    with b show ?thesis by (auto simp add: less_Suc_eq)
  qed
  ultimately show ?case by blast
qed

lemma hash_size_indices_distinct:
  "distinct (map snd
     (st_hash (snd (makeMarkerGeoJSON e \<lparr>st_trace = t, st_hash = new_hash\<rparr>)) SIZE_PROP))"
proof (cases "marker_size (marker t)")
  case (Scalar c)
  then show ?thesis
    by (simp add: makeMarkerGeoJSON_store scan_hash_size_scalar new_hash_empty)
next
  case (Array cont)
  define obj where
    "obj n = st_hash (fst (fold (makeMarkerGeoJSON_step e) [0..<n]
                (\<lparr>st_trace = t, st_hash = new_hash\<rparr>, []))) SIZE_PROP" for n
  define ks where "ks = style_keys e (Array cont) (getCoordLen t)"
  have init: "obj 0 = []"
    by (simp add: obj_def new_hash_empty)
  have step: "obj (Suc i) = record_index (obj i) (ks ! i) i" if "i < getCoordLen t" for i
    using that by (simp add: obj_def scan_hash_size_Suc Array ks_def style_keys_nth del: upt_Suc)
  show ?thesis
    using record_scan_distinct [of obj "getCoordLen t" ks "getCoordLen t", OF init step]
    by (simp add: makeMarkerGeoJSON_store obj_def)
qed

section \<open>Marker paint values\<close>

text \<open>Every key \<^verbatim>\<open>Object.keys\<close> lists is an own key, so the stop loop pushes one stop
  for each.\<close>

lemma Object_keys_set: "set (Object_keys obj) = own_keys obj"
  by (auto simp add: Object_keys_def own_keys_def Let_def)

lemma stops_loop_length:
  "set vals \<subseteq> own_keys obj \<Longrightarrow> length (stops_loop obj fn vals) = length vals"
proof (induction vals)
  case Nil
  show ?case by simp
next
  case (Cons v vals)
  then have "v \<in> fst ` set obj" by (simp add: own_keys_def)
  then obtain i where "map_of obj v = Some i"
    by (metis domD dom_map_of_conv_image_fst)
  with Cons show ?case by simp
qed

lemma stops_loop_own:
  "length (stops_loop obj fn (Object_keys obj)) = length (Object_keys obj)"
  by (simp add: stops_loop_length Object_keys_set)

text \<open>
  C8. A scalar \<^verbatim>\<open>marker.color\<close> is the \<^verbatim>\<open>circle-color\<close> value unchanged, a scalar
  \<^verbatim>\<open>marker.size\<close> gives the \<^verbatim>\<open>circle-radius\<close> value \<^verbatim>\<open>marker.size / 2\<close> (half the
  number when it is a finite number), and neither is a stop spec; an array-valued
  attribute always gives a stop spec. For a visible trace with markers these two values are
  what \<^verbatim>\<open>convert\<close> hands to \<^verbatim>\<open>Lib.extendFlat\<close> for the marker paint.
\<close>

theorem marker_paint_scalar_or_stops:
  "(color (marker t) = Scalar c \<longrightarrow> calcMarkerColor e t h = Value c)
   \<and> (marker_size (marker t) = Scalar s
        \<longrightarrow> calcMarkerSize e t h = Value (Num (js_divide (toNumber e s) (Finite 2))))
   \<and> (marker_size (marker t) = Scalar (Num (Finite r))
        \<longrightarrow> calcMarkerSize e t h = Value (Num (Finite (r / 2))))
   \<and> is_stop_spec (calcMarkerColor e t h) = isArray (color (marker t))
   \<and> is_stop_spec (calcMarkerSize e t h) = isArray (marker_size (marker t))
   \<and> (visible t = Bool True \<and> hasMarkers e t
        \<longrightarrow> paint (markers (convert e t)) =
            extendFlat e []
              [(''circle-opacity'',
                  Value (Num (js_times (toNumber e (opacity t))
                    (toNumber e (marker_opacity (marker t)))))),
               (''circle-color'', calcMarkerColor e t
                  (st_hash (snd (makeMarkerGeoJSON e \<lparr>st_trace = t, st_hash = new_hash\<rparr>)))),
               (''circle-radius'', calcMarkerSize e t
                  (st_hash (snd (makeMarkerGeoJSON e \<lparr>st_trace = t, st_hash = new_hash\<rparr>))))])"
proof -
  have c: "is_stop_spec (calcMarkerColor e t h) = isArray (color (marker t))"
    by (cases "color (marker t)") (simp_all add: calcMarkerColor_def Let_def)
  have s: "is_stop_spec (calcMarkerSize e t h) = isArray (marker_size (marker t))"
    by (cases "marker_size (marker t)") (simp_all add: calcMarkerSize_def Let_def)
  have p: "visible t = Bool True \<and> hasMarkers e t
        \<longrightarrow> paint (markers (convert e t)) =
            extendFlat e []
              [(''circle-opacity'',
                  Value (Num (js_times (toNumber e (opacity t))
                    (toNumber e (marker_opacity (marker t)))))),
               (''circle-color'', calcMarkerColor e t
                  (st_hash (snd (makeMarkerGeoJSON e \<lparr>st_trace = t, st_hash = new_hash\<rparr>)))),
               (''circle-radius'', calcMarkerSize e t
                  (st_hash (snd (makeMarkerGeoJSON e \<lparr>st_trace = t, st_hash = new_hash\<rparr>))))]"
    by (simp add: convert_def convert_run_def Let_def makeMarkerGeoJSON_trace initContainer_def)
  show ?thesis
    using c s p by (simp add: calcMarkerColor_def calcMarkerSize_def Let_def)
qed

text \<open>Scenario 4 (\<^verbatim>\<open>marker.size = 10\<close> gives the radius 5), and the two traces with an
  array-valued attribute.\<close>

theorem marker_paint_scalar_or_stops_witness:
  "color (marker example_trace) = Scalar (Str ''#444'')
   \<and> calcMarkerColor example_env example_trace new_hash = Value (Str ''#444'')
   \<and> marker_size (marker example_trace) = Scalar (Num (Finite 10))
   \<and> calcMarkerSize example_env example_trace new_hash = Value (Num (Finite 5))
   \<and> isArray (color (marker trace_aba))
   \<and> is_stop_spec (calcMarkerColor example_env trace_aba new_hash)
   \<and> isArray (marker_size (marker trace_sizes))
   \<and> is_stop_spec (calcMarkerSize example_env trace_sizes new_hash)
   \<and> visible example_trace = Bool True \<and> hasMarkers example_env example_trace
   \<and> paint (markers (convert example_env example_trace))
       = [(''circle-opacity'', Value (Num (Finite 1))),
          (''circle-color'', Value (Str ''#444'')),
          (''circle-radius'', Value (Num (Finite 5)))]"
proof -
  have f: "color (marker example_trace) = Scalar (Str ''#444'')"
    "marker_size (marker example_trace) = Scalar (Num (Finite 10))"
    "isArray (color (marker trace_aba))" "isArray (marker_size (marker trace_sizes))"
    "visible example_trace = Bool True" "hasMarkers example_env example_trace"
    "opacity example_trace = Num (Finite 1)"
    "marker_opacity (marker example_trace) = Num (Finite 1)"
    by (simp_all add: example_trace_def trace_aba_def trace_sizes_def example_env_def)
  have x: "extendFlat example_env [] kvs = fold (\<lambda>kv. AList.update (fst kv) (snd kv)) kvs []"
    for kvs
    by (simp add: example_env_def)
  show ?thesis
    using marker_paint_scalar_or_stops [of example_trace "Str ''#444''" example_env new_hash
        "Num (Finite 10)" 10]
      marker_paint_scalar_or_stops [of example_trace "Str ''#444''" example_env
        "st_hash (snd (makeMarkerGeoJSON example_env
           \<lparr>st_trace = example_trace, st_hash = new_hash\<rparr>))" "Num (Finite 10)" 10]
      marker_paint_scalar_or_stops [of trace_aba _ example_env new_hash]
      marker_paint_scalar_or_stops [of trace_sizes _ example_env new_hash]
    by (simp add: f x)
qed

text \<open>
  C9. When \<^verbatim>\<open>marker.color\<close> is an array, the stop spec \<^verbatim>\<open>calcMarkerColor\<close> returns
  has its \<^verbatim>\<open>property\<close> field set to \<^verbatim>\<open>SIZE_PROP\<close>, that is
  \<^verbatim>\<open>'circle-size'\<close>, and not to \<^verbatim>\<open>COLOR_PROP\<close>, that is \<^verbatim>\<open>'circle-color'\<close>.
\<close>

theorem color_stops_property:
  assumes "isArray (color (marker t))"
  shows "property (calcMarkerColor e t h) = ''circle-size''
         \<and> property (calcMarkerColor e t h) = SIZE_PROP
         \<and> property (calcMarkerColor e t h) \<noteq> COLOR_PROP
         \<and> COLOR_PROP = ''circle-color''"
  using assms
  by (cases "color (marker t)")
     (simp_all add: calcMarkerColor_def Let_def SIZE_PROP_def COLOR_PROP_def)

text \<open>The colours \<^verbatim>\<open>['a', 'b', 'a']\<close> again.\<close>

theorem color_stops_property_witness:
  "isArray (color (marker trace_aba))
   \<and> property (calcMarkerColor example_env trace_aba
        (st_hash (snd (makeMarkerGeoJSON example_env
           \<lparr>st_trace = trace_aba, st_hash = new_hash\<rparr>)))) = ''circle-size''
   \<and> calcMarkerColor example_env trace_aba
        (st_hash (snd (makeMarkerGeoJSON example_env
           \<lparr>st_trace = trace_aba, st_hash = new_hash\<rparr>)))
       = StopSpec ''circle-size'' [(2, Str ''a''), (1, Str ''b'')]"
proof -
  have a: "isArray (color (marker trace_aba))"
    by (simp add: trace_aba_def)
  show ?thesis
    using color_stops_property [OF a, of example_env
        "st_hash (snd (makeMarkerGeoJSON example_env
           \<lparr>st_trace = trace_aba, st_hash = new_hash\<rparr>))"]
    by (simp add: a aba_color)
qed

section \<open>The input trace\<close>

text \<open>
  C10. \<^verbatim>\<open>convert\<close> leaves the trace it is given as it found it: the trace is the same
  after the call as before, in every field. The one object the functions of the module
  mutate through a reference they receive is the hash, which \<^verbatim>\<open>convert\<close> creates in
  the call: the store \<^verbatim>\<open>makeMarkerGeoJSON\<close> and \<^verbatim>\<open>translate\<close> return differs from
  the one they receive in the hash at most.
\<close>

theorem convert_leaves_trace:
  "snd (convert_run e t) = t
   \<and> convert e t = fst (convert_run e t)
   \<and> snd (makeMarkerGeoJSON e s) = s\<lparr>st_hash := st_hash (snd (makeMarkerGeoJSON e s))\<rparr>
   \<and> fst (translate e props key cont i s)
       = s\<lparr>st_hash := st_hash (fst (translate e props key cont i s))\<rparr>"
proof -
  have "snd (convert_run e t) = t"
    by (simp add: convert_run_def Let_def makeMarkerGeoJSON_trace)
  moreover have "snd (makeMarkerGeoJSON e s) = s\<lparr>st_hash := st_hash (snd (makeMarkerGeoJSON e s))\<rparr>"
    using makeMarkerGeoJSON_trace [of e s] by (cases s, cases "snd (makeMarkerGeoJSON e s)") simp
  moreover have "fst (translate e props key cont i s)
       = s\<lparr>st_hash := st_hash (fst (translate e props key cont i s))\<rparr>"
    by (simp add: translate_def Let_def)
  ultimately show ?thesis
    by (simp add: convert_def)
qed

end
